theory Spec2Isabelle
  imports Main "HOL-Library.Word" "HOL-Library.AList"
begin

unbundle bit_operations_syntax

section \<open>Data model\<close>

text \<open>
  The relay engine of \<^verbatim>\<open>client/wasm_example/wasm/internal/rdp\<close>: the file
  \<^verbatim>\<open>rdcleanpath.go\<close> (types, registry, message handler, direct mode, cleanup) and its
  companion file holding \<^verbatim>\<open>processRDCleanPathPDU\<close>, \<^verbatim>\<open>setupTLSConnection\<close>,
  \<^verbatim>\<open>setupPlainConnection\<close> and the two senders.

  Go byte slices are lists of 8-bit words. A Go slice can be \<^verbatim>\<open>nil\<close>, and
  \<^verbatim>\<open>encoding/asn1\<close> tells a nil slice from an empty one, so a slice-typed field is
  an \<open>option\<close>: \<open>None\<close> is nil. Go strings are \<open>string\<close>; the empty string is the
  zero value.
\<close>

type_synonym byte = "8 word"
type_synonym bytes = "byte list"

definition slice_len :: "'a list option \<Rightarrow> nat" where
  "slice_len s = (case s of None \<Rightarrow> 0 | Some xs \<Rightarrow> length xs)"

definition slice_elems :: "'a list option \<Rightarrow> 'a list" where
  "slice_elems s = (case s of None \<Rightarrow> [] | Some xs \<Rightarrow> xs)"

definition RDCleanPathVersion :: "64 word" where
  "RDCleanPathVersion = 3390"

record RDCleanPathPDU =
  Version :: "64 word"
  Error :: "bytes option"
  Destination :: string
  ProxyAuth :: string
  ServerAuth :: string
  PreconnectionBlob :: string
  X224ConnectionPDU :: "bytes option"
  ServerCertChain :: "bytes list option"
  ServerAddr :: string

text \<open>The zero value of the struct, the starting point of every composite literal.\<close>

definition zeroPDU :: RDCleanPathPDU where
  "zeroPDU = \<lparr>Version = 0, Error = None, Destination = [], ProxyAuth = [], ServerAuth = [],
     PreconnectionBlob = [], X224ConnectionPDU = None, ServerCertChain = None, ServerAddr = []\<rparr>"

text \<open>
  The JavaScript boundary object \<^verbatim>\<open>wsHandlers\<close>: the engine only asks whether its
  properties \<^verbatim>\<open>receiveFromGo\<close> and \<^verbatim>\<open>send\<close> are truthy.
\<close>

record ws_handlers =
  has_receiveFromGo :: bool
  has_send :: bool

text \<open>
  \<^verbatim>\<open>proxyConnection\<close>. A \<^verbatim>\<open>net.Conn\<close> is a handle (a number); the TLS connection
  wraps the same handle. \<open>ctx_done\<close> is the state of \<^verbatim>\<open>ctx\<close>: true once
  \<^verbatim>\<open>cancel\<close> has been called.
\<close>

record proxyConnection =
  id_c :: string
  destination :: string
  rdpConn :: "nat option"
  tlsConn :: "nat option"
  wsHandlers :: ws_handlers
  ctx_done :: bool

text \<open>
  \<^verbatim>\<open>RDCleanPathProxy\<close>. A Go map is an association list with one entry for each
  key, so that \<^verbatim>\<open>len\<close> is its length: \<open>map_of\<close> reads it, \<open>AList.update\<close> stores and
  \<open>AList.delete\<close> deletes. \<^verbatim>\<open>activeConnections\<close> maps a proxy id to a pointer to a
  \<^verbatim>\<open>proxyConnection\<close>; \<^verbatim>\<open>destinations\<close> is nil until the first endpoint is
  created.
\<close>

record RDCleanPathProxy =
  activeConnections :: "(string \<times> nat) list"
  destinations :: "(string \<times> string) list option"

datatype Certificate = Certificate (Raw: bytes)

datatype goroutine = ForwardWSToTCP | ForwardTCPToWS | ForwardTLSToWS

text \<open>
  Every call that leaves the engine is recorded: the dial, reads, writes and closes on
  the remote connection, the TLS handshake, calls of the boundary's methods, calls of
  \<^verbatim>\<open>asn1.Marshal\<close>, cancellation of a session's scope, and the start of a forwarding
  goroutine.
\<close>

datatype event =
    Dial string
  | ConnWrite nat bytes
  | ConnRead nat nat
  | ConnClose nat
  | TlsHandshake nat
  | TlsWrite nat bytes
  | TlsClose nat
  | Marshal RDCleanPathPDU
  | WsReceiveFromGo nat bytes
  | WsSend nat bytes
  | CtxCancel nat
  | Go goroutine nat

text \<open>
  The store: the proxy object, the heap of \<^verbatim>\<open>proxyConnection\<close> objects addressed by
  pointer, the next free address, and the trace of events so far.
\<close>

record world =
  proxy :: RDCleanPathProxy
  heap :: "nat \<Rightarrow> proxyConnection"
  next_ptr :: nat
  trace :: "event list"

text \<open>
  What the engine is given: the two functions of \<^verbatim>\<open>encoding/asn1\<close> at the type
  \<^verbatim>\<open>RDCleanPathPDU\<close> (\<open>None\<close> is a non-nil error), the dial capability, and the
  behaviour of the remote during one negotiation: whether a write succeeds, the bytes
  the next read finds (\<open>None\<close> is a read error), and the certificates presented in the
  TLS handshake (\<open>None\<close> is a failed handshake).
\<close>

record deps =
  asn1_Unmarshal :: "bytes \<Rightarrow> RDCleanPathPDU option"
  asn1_Marshal :: "RDCleanPathPDU \<Rightarrow> bytes option"
  nbClient_Dial :: "string \<Rightarrow> nat option"
  conn_Write_ok :: "bytes \<Rightarrow> bool"
  conn_Read_data :: "bytes option"
  tls_PeerCertificates :: "Certificate list option"

text \<open>\<^verbatim>\<open>Read\<close> into a buffer of \<open>n\<close> bytes returns at most \<open>n\<close> bytes.\<close>

definition conn_Read :: "deps \<Rightarrow> nat \<Rightarrow> bytes option" where
  "conn_Read d n = map_option (take n) (conn_Read_data d)"

text \<open>
  A goroutine of the engine runs until it returns, parks on \<^verbatim>\<open><-conn.ctx.Done()\<close>,
  or dereferences a nil connection.
\<close>

datatype outcome = Returned world | Blocked world | Panicked world

fun world_of :: "outcome \<Rightarrow> world" where
  "world_of (Returned w) = w"
| "world_of (Blocked w) = w"
| "world_of (Panicked w) = w"

definition emit :: "event \<Rightarrow> world \<Rightarrow> world" where
  "emit e w = w\<lparr>trace := trace w @ [e]\<rparr>"

definition upd_conn :: "nat \<Rightarrow> (proxyConnection \<Rightarrow> proxyConnection) \<Rightarrow> world \<Rightarrow> world" where
  "upd_conn c f w = w\<lparr>heap := (heap w)(c := f (heap w c))\<rparr>"

definition new_events :: "world \<Rightarrow> world \<Rightarrow> event list" where
  "new_events w w' = drop (length (trace w)) (trace w')"

section \<open>Strings\<close>

text \<open>\<^verbatim>\<open>strings.HasSuffix\<close>.\<close>

definition HasSuffix :: "string \<Rightarrow> string \<Rightarrow> bool" where
  "HasSuffix s suffix =
     (length s \<ge> length suffix \<and> drop (length s - length suffix) s = suffix)"

text \<open>\<^verbatim>\<open>%d\<close> of a non-negative \<^verbatim>\<open>int\<close>.\<close>

definition digit_char :: "nat \<Rightarrow> char" where
  "digit_char n = char_of (48 + n)"

fun Sprintf_d :: "nat \<Rightarrow> string" where
  "Sprintf_d n = (if n < 10 then [digit_char n] else Sprintf_d (n div 10) @ [digit_char (n mod 10)])"

declare Sprintf_d.simps [simp del]

text \<open>\<^verbatim>\<open>[]byte(s)\<close>.\<close>

definition byte_of_char :: "char \<Rightarrow> byte" where
  "byte_of_char c = of_nat (of_char c)"

definition char_of_byte :: "byte \<Rightarrow> char" where
  "char_of_byte b = char_of (unat b)"

definition bytes_of_string :: "string \<Rightarrow> bytes" where
  "bytes_of_string s = map byte_of_char s"

definition string_of_bytes :: "bytes \<Rightarrow> string" where
  "string_of_bytes bs = map char_of_byte bs"

section \<open>The PDU codec\<close>

text \<open>
  Modelled from the spec: the codec of the CleanPath message. The engine calls
  \<^verbatim>\<open>asn1.Marshal\<close> and \<^verbatim>\<open>asn1.Unmarshal\<close> of the Go library \<^verbatim>\<open>encoding/asn1\<close>, which
  is not among the sources; only the struct \<^verbatim>\<open>RDCleanPathPDU\<close> with its field tags is.
  \<open>Encode\<close> and \<open>Decode\<close> follow the wire format of the specification: DER, an outer
  SEQUENCE, each field an explicit context-tagged element (tags 0 to 7 and 9) holding
  an INTEGER, an OCTET STRING, a UTF8String or a SEQUENCE OF OCTET STRING, every field
  but the version optional. As the struct tags say, an optional field is left out when
  it holds the zero value of its Go type: a nil slice, an empty string. \<open>Decode\<close> fails
  with \<open>MalformedPDU\<close> when the buffer is not a well-formed tagged sequence, when the
  version is absent, or when a declared length exceeds the remaining buffer; bytes
  after the outer SEQUENCE are not looked at (\<^verbatim>\<open>handleWebSocketMessage\<close> discards the
  rest that \<^verbatim>\<open>Unmarshal\<close> returns).

  Every read of the buffer goes through \<open>index\<close>, \<open>slice_from\<close> or \<open>slice_to\<close>, which
  answer \<open>RuntimePanic\<close> out of range, as indexing and slicing a Go slice do.
\<close>

datatype decode_error = MalformedPDU string | RuntimePanic

definition index :: "bytes \<Rightarrow> nat \<Rightarrow> decode_error + byte" where
  "index bs i = (if i < length bs then Inr (bs ! i) else Inl RuntimePanic)"

definition slice_from :: "bytes \<Rightarrow> nat \<Rightarrow> decode_error + bytes" where
  "slice_from bs lo = (if lo \<le> length bs then Inr (drop lo bs) else Inl RuntimePanic)"

definition slice_to :: "bytes \<Rightarrow> nat \<Rightarrow> decode_error + bytes" where
  "slice_to bs hi = (if hi \<le> length bs then Inr (take hi bs) else Inl RuntimePanic)"

subsection \<open>Identifier octets\<close>

definition TagInteger :: byte where "TagInteger = 0x02"
definition TagOctetString :: byte where "TagOctetString = 0x04"
definition TagUTF8String :: byte where "TagUTF8String = 0x0C"
definition TagSequence :: byte where "TagSequence = 0x30"

text \<open>The identifier octet of the explicit context tag \<open>n\<close>: class 2, constructed.\<close>

definition TagContext :: "nat \<Rightarrow> byte" where
  "TagContext n = of_nat (0xA0 + n)"

subsection \<open>Encoding\<close>

text \<open>A number in base 256, most significant byte first, without leading zeros.\<close>

fun be_bytes :: "nat \<Rightarrow> bytes" where
  "be_bytes n = (if n < 256 then [of_nat n] else be_bytes (n div 256) @ [of_nat n])"

declare be_bytes.simps [simp del]

text \<open>A DER length: short form below 128, else the count of length bytes and the bytes.\<close>

definition encode_length :: "nat \<Rightarrow> bytes" where
  "encode_length n =
     (if n < 128 then [of_nat n] else of_nat (128 + length (be_bytes n)) # be_bytes n)"

definition tlv :: "byte \<Rightarrow> bytes \<Rightarrow> bytes" where
  "tlv t body = t # encode_length (length body) @ body"

text \<open>The content of an INTEGER: two's complement, the fewest bytes that hold it.\<close>

function int_bytes :: "int \<Rightarrow> bytes" where
  "int_bytes i =
     (if - 128 \<le> i \<and> i \<le> 127 then [of_int i] else int_bytes (i div 256) @ [of_int i])"
  by pat_completeness auto
termination
  by (relation "measure (\<lambda>i. nat \<bar>i\<bar>)") auto

declare int_bytes.simps [simp del]

definition enc_int :: "nat \<Rightarrow> 64 word \<Rightarrow> bytes" where
  "enc_int n v = tlv (TagContext n) (tlv TagInteger (int_bytes (sint v)))"

definition enc_octets :: "nat \<Rightarrow> bytes option \<Rightarrow> bytes" where
  "enc_octets n v =
     (case v of None \<Rightarrow> [] | Some b \<Rightarrow> tlv (TagContext n) (tlv TagOctetString b))"

definition enc_utf8 :: "nat \<Rightarrow> string \<Rightarrow> bytes" where
  "enc_utf8 n s =
     (if s = [] then [] else tlv (TagContext n) (tlv TagUTF8String (bytes_of_string s)))"

definition enc_chain :: "nat \<Rightarrow> bytes list option \<Rightarrow> bytes" where
  "enc_chain n v =
     (case v of None \<Rightarrow> []
      | Some cs \<Rightarrow> tlv (TagContext n) (tlv TagSequence (concat (map (tlv TagOctetString) cs))))"

text \<open>
  Modelled from the spec: \<^verbatim>\<open>asn1.Marshal\<close> at the type \<^verbatim>\<open>RDCleanPathPDU\<close> (the library is
  not among the sources). The outer SEQUENCE of the fields in the order of their tags.
\<close>

definition Encode :: "RDCleanPathPDU \<Rightarrow> bytes" where
  "Encode m =
     tlv TagSequence
       (enc_int 0 (Version m) @ enc_octets 1 (Error m) @ enc_utf8 2 (Destination m) @
        enc_utf8 3 (ProxyAuth m) @ enc_utf8 4 (ServerAuth m) @
        enc_utf8 5 (PreconnectionBlob m) @ enc_octets 6 (X224ConnectionPDU m) @
        enc_chain 7 (ServerCertChain m) @ enc_utf8 9 (ServerAddr m))"

subsection \<open>Decoding\<close>

definition be_nat :: "bytes \<Rightarrow> nat" where
  "be_nat bs = foldl (\<lambda>a b. a * 256 + unat b) 0 bs"

text \<open>
  The length octets at the head of \<open>bs\<close>: the declared length and the bytes after the
  length octets. A length takes at most four bytes in the long form.
\<close>

definition parseLength :: "bytes \<Rightarrow> decode_error + nat \<times> bytes" where
  "parseLength bs =
     (if length bs < 1 then Inl (MalformedPDU ''truncated length'')
      else (case index bs 0 of Inl e \<Rightarrow> Inl e | Inr b \<Rightarrow>
        (if unat b < 128
         then (case slice_from bs 1 of Inl e \<Rightarrow> Inl e | Inr rest \<Rightarrow> Inr (unat b, rest))
         else (let n = unat b - 128
               in if n = 0 then Inl (MalformedPDU ''indefinite length'')
                  else if n > 4 then Inl (MalformedPDU ''length too large'')
                  else if length bs < 1 + n then Inl (MalformedPDU ''truncated length'')
                  else (case slice_from bs 1 of Inl e \<Rightarrow> Inl e | Inr r1 \<Rightarrow>
                       (case slice_to r1 n of Inl e \<Rightarrow> Inl e | Inr lb \<Rightarrow>
                       (case index lb 0 of Inl e \<Rightarrow> Inl e | Inr b0 \<Rightarrow>
                         (if b0 = 0 then Inl (MalformedPDU ''leading zero in length'')
                          else if be_nat lb < 128 then Inl (MalformedPDU ''non-minimal length'')
                          else (case slice_from r1 n of Inl e \<Rightarrow> Inl e
                                | Inr rest \<Rightarrow> Inr (be_nat lb, rest))))))))))"

text \<open>
  One element with identifier octet \<open>t\<close> at the head of \<open>bs\<close>: its content and the bytes
  after it.
\<close>

definition parseTLV :: "byte \<Rightarrow> bytes \<Rightarrow> decode_error + bytes \<times> bytes" where
  "parseTLV t bs =
     (if length bs < 2 then Inl (MalformedPDU ''truncated element'')
      else (case index bs 0 of Inl e \<Rightarrow> Inl e | Inr b \<Rightarrow>
        (if b \<noteq> t then Inl (MalformedPDU ''unexpected tag'')
         else (case slice_from bs 1 of Inl e \<Rightarrow> Inl e | Inr lb \<Rightarrow>
              (case parseLength lb of Inl e \<Rightarrow> Inl e | Inr (len, rest) \<Rightarrow>
                (if len > length rest
                 then Inl (MalformedPDU ''declared length exceeds the remaining buffer'')
                 else (case slice_to rest len of Inl e \<Rightarrow> Inl e | Inr content \<Rightarrow>
                      (case slice_from rest len of Inl e \<Rightarrow> Inl e
                       | Inr rest' \<Rightarrow> Inr (content, rest')))))))))"

text \<open>
  The field with explicit tag \<open>n\<close> and inner type \<open>t\<close>: absent (\<open>None\<close>, nothing consumed)
  when the buffer is at its end or starts with another identifier; otherwise the
  wrapper must hold exactly one element of type \<open>t\<close>.
\<close>

definition parseExplicit :: "nat \<Rightarrow> byte \<Rightarrow> bytes \<Rightarrow> decode_error + bytes option \<times> bytes" where
  "parseExplicit n t bs =
     (if length bs = 0 then Inr (None, bs)
      else (case index bs 0 of Inl e \<Rightarrow> Inl e | Inr b \<Rightarrow>
        (if b \<noteq> TagContext n then Inr (None, bs)
         else (case parseTLV (TagContext n) bs of Inl e \<Rightarrow> Inl e | Inr (wrapped, rest) \<Rightarrow>
              (case parseTLV t wrapped of Inl e \<Rightarrow> Inl e | Inr (content, extra) \<Rightarrow>
                (if length extra \<noteq> 0
                 then Inl (MalformedPDU ''trailing data in explicit tag'')
                 else Inr (Some content, rest)))))))"

definition twos :: "bytes \<Rightarrow> int" where
  "twos bs = (case bs of [] \<Rightarrow> 0 | b # rest \<Rightarrow> foldl (\<lambda>a x. a * 256 + uint x) (sint b) rest)"

definition parseInt64 :: "bytes \<Rightarrow> decode_error + 64 word" where
  "parseInt64 bs =
     (if length bs = 0 then Inl (MalformedPDU ''empty integer'')
      else if length bs > 8 then Inl (MalformedPDU ''integer too large'')
      else if length bs = 1 then Inr (word_of_int (twos bs))
      else (case index bs 0 of Inl e \<Rightarrow> Inl e | Inr b0 \<Rightarrow>
           (case index bs 1 of Inl e \<Rightarrow> Inl e | Inr b1 \<Rightarrow>
             (if (b0 = 0 \<and> unat b1 < 128) \<or> (b0 = 0xFF \<and> unat b1 \<ge> 128)
              then Inl (MalformedPDU ''integer not minimally encoded'')
              else Inr (word_of_int (twos bs))))))"

text \<open>Well-formed UTF-8: the byte ranges of RFC 3629.\<close>

definition utf8_cont :: "byte \<Rightarrow> bool" where
  "utf8_cont b = (0x80 \<le> b \<and> b \<le> 0xBF)"

fun utf8_Valid :: "bytes \<Rightarrow> bool" where
  "utf8_Valid [] = True"
| "utf8_Valid (b0 # bs) =
     (if b0 < 0x80 then utf8_Valid bs
      else if 0xC2 \<le> b0 \<and> b0 \<le> 0xDF
      then (case bs of b1 # r \<Rightarrow> utf8_cont b1 \<and> utf8_Valid r | _ \<Rightarrow> False)
      else if 0xE0 \<le> b0 \<and> b0 \<le> 0xEF
      then (case bs of
              b1 # b2 # r \<Rightarrow>
                (if b0 = 0xE0 then 0xA0 \<le> b1 \<and> b1 \<le> 0xBF
                 else if b0 = 0xED then 0x80 \<le> b1 \<and> b1 \<le> 0x9F
                 else utf8_cont b1) \<and> utf8_cont b2 \<and> utf8_Valid r
            | _ \<Rightarrow> False)
      else if 0xF0 \<le> b0 \<and> b0 \<le> 0xF4
      then (case bs of
              b1 # b2 # b3 # r \<Rightarrow>
                (if b0 = 0xF0 then 0x90 \<le> b1 \<and> b1 \<le> 0xBF
                 else if b0 = 0xF4 then 0x80 \<le> b1 \<and> b1 \<le> 0x8F
                 else utf8_cont b1) \<and> utf8_cont b2 \<and> utf8_cont b3 \<and> utf8_Valid r
            | _ \<Rightarrow> False)
      else False)"

definition parseUTF8String :: "bytes \<Rightarrow> decode_error + string" where
  "parseUTF8String bs =
     (if utf8_Valid bs then Inr (string_of_bytes bs)
      else Inl (MalformedPDU ''invalid UTF-8 string''))"

text \<open>
  The elements of a SEQUENCE OF OCTET STRING. Each round consumes an element of at least
  two bytes; \<open>fuel\<close> bounds the rounds and \<open>length bs\<close> is always enough.
\<close>

fun parseOctetStrings :: "nat \<Rightarrow> bytes \<Rightarrow> decode_error + bytes list" where
  "parseOctetStrings fuel bs =
     (if length bs = 0 then Inr []
      else (case fuel of
        0 \<Rightarrow> Inl (MalformedPDU ''sequence too long'')
      | Suc fuel' \<Rightarrow>
         (case parseTLV TagOctetString bs of Inl e \<Rightarrow> Inl e | Inr (content, rest) \<Rightarrow>
         (case parseOctetStrings fuel' rest of Inl e \<Rightarrow> Inl e
          | Inr others \<Rightarrow> Inr (content # others)))))"

declare parseOctetStrings.simps [simp del]

definition parse_int_field :: "nat \<Rightarrow> bytes \<Rightarrow> decode_error + 64 word \<times> bytes" where
  "parse_int_field n bs =
     (case parseExplicit n TagInteger bs of Inl e \<Rightarrow> Inl e
      | Inr (None, rest) \<Rightarrow> Inl (MalformedPDU ''version field absent'')
      | Inr (Some content, rest) \<Rightarrow>
         (case parseInt64 content of Inl e \<Rightarrow> Inl e | Inr v \<Rightarrow> Inr (v, rest)))"

definition parse_octets_field :: "nat \<Rightarrow> bytes \<Rightarrow> decode_error + bytes option \<times> bytes" where
  "parse_octets_field n bs = parseExplicit n TagOctetString bs"

definition parse_utf8_field :: "nat \<Rightarrow> bytes \<Rightarrow> decode_error + string \<times> bytes" where
  "parse_utf8_field n bs =
     (case parseExplicit n TagUTF8String bs of Inl e \<Rightarrow> Inl e
      | Inr (None, rest) \<Rightarrow> Inr ([], rest)
      | Inr (Some content, rest) \<Rightarrow>
         (case parseUTF8String content of Inl e \<Rightarrow> Inl e | Inr s \<Rightarrow> Inr (s, rest)))"

definition parse_chain_field :: "nat \<Rightarrow> bytes \<Rightarrow> decode_error + bytes list option \<times> bytes" where
  "parse_chain_field n bs =
     (case parseExplicit n TagSequence bs of Inl e \<Rightarrow> Inl e
      | Inr (None, rest) \<Rightarrow> Inr (None, rest)
      | Inr (Some content, rest) \<Rightarrow>
         (case parseOctetStrings (length content) content of Inl e \<Rightarrow> Inl e
          | Inr cs \<Rightarrow> Inr (Some cs, rest)))"

text \<open>The fields of the message, in the order of their tags, up to the end of the body.\<close>

definition parseFields :: "bytes \<Rightarrow> decode_error + RDCleanPathPDU" where
  "parseFields body =
     (case parse_int_field 0 body of Inl e \<Rightarrow> Inl e | Inr (v0, r0) \<Rightarrow>
     (case parse_octets_field 1 r0 of Inl e \<Rightarrow> Inl e | Inr (v1, r1) \<Rightarrow>
     (case parse_utf8_field 2 r1 of Inl e \<Rightarrow> Inl e | Inr (v2, r2) \<Rightarrow>
     (case parse_utf8_field 3 r2 of Inl e \<Rightarrow> Inl e | Inr (v3, r3) \<Rightarrow>
     (case parse_utf8_field 4 r3 of Inl e \<Rightarrow> Inl e | Inr (v4, r4) \<Rightarrow>
     (case parse_utf8_field 5 r4 of Inl e \<Rightarrow> Inl e | Inr (v5, r5) \<Rightarrow>
     (case parse_octets_field 6 r5 of Inl e \<Rightarrow> Inl e | Inr (v6, r6) \<Rightarrow>
     (case parse_chain_field 7 r6 of Inl e \<Rightarrow> Inl e | Inr (v7, r7) \<Rightarrow>
     (case parse_utf8_field 9 r7 of Inl e \<Rightarrow> Inl e | Inr (v9, r9) \<Rightarrow>
       (if length r9 \<noteq> 0 then Inl (MalformedPDU ''unexpected element in sequence'')
        else Inr \<lparr>Version = v0, Error = v1, Destination = v2, ProxyAuth = v3,
                  ServerAuth = v4, PreconnectionBlob = v5, X224ConnectionPDU = v6,
                  ServerCertChain = v7, ServerAddr = v9\<rparr>))))))))))"

text \<open>
  Modelled from the spec: \<^verbatim>\<open>asn1.Unmarshal\<close> at the type \<^verbatim>\<open>RDCleanPathPDU\<close> (the library
  is not among the sources). The buffer must start with a SEQUENCE whose declared length
  fits; its body is read field by field; what follows the SEQUENCE is left alone.
\<close>

definition Decode :: "bytes \<Rightarrow> decode_error + RDCleanPathPDU" where
  "Decode bs =
     (case parseTLV TagSequence bs of Inl e \<Rightarrow> Inl e
      | Inr (body, rest) \<Rightarrow> parseFields body)"


text \<open>
  The buffer is at its end or starts with the identifier of a field after field \<open>k\<close>:
  what the decoder sees where field \<open>k\<close> is absent.
\<close>

definition starts_later :: "nat \<Rightarrow> bytes \<Rightarrow> bool" where
  "starts_later k bs = (bs = [] \<or> (\<exists>j. k < j \<and> j \<le> 9 \<and> hd bs = TagContext j))"

text \<open>The codec as the engine sees it: an error of either function is \<open>None\<close>.\<close>

definition codec_Unmarshal :: "bytes \<Rightarrow> RDCleanPathPDU option" where
  "codec_Unmarshal bs = (case Decode bs of Inl e \<Rightarrow> None | Inr m \<Rightarrow> Some m)"

definition codec_Marshal :: "RDCleanPathPDU \<Rightarrow> bytes option" where
  "codec_Marshal m = Some (Encode m)"

section \<open>The engine\<close>

subsection \<open>Registry\<close>

definition NewRDCleanPathProxy :: RDCleanPathProxy where
  "NewRDCleanPathProxy = \<lparr>activeConnections = [], destinations = None\<rparr>"

definition default_destination :: string where
  "default_destination = ''win2k19-c2.nb.internal:3389''"

text \<open>
  The arguments JavaScript passes to \<^verbatim>\<open>createRDCleanPathProxy\<close>. \<^verbatim>\<open>String()\<close> of a
  value that is not a string does not fail, it describes the value.
\<close>

datatype js_value = JsNull | JsUndefined | JsString string

fun IsNull :: "js_value \<Rightarrow> bool" where
  "IsNull JsNull = True"
| "IsNull _ = False"

fun String_js :: "js_value \<Rightarrow> string" where
  "String_js (JsString s) = s"
| "String_js JsNull = ''<null>''"
| "String_js JsUndefined = ''<undefined>''"

text \<open>
  \<^verbatim>\<open>createProxy\<close>, with the goroutine inside the promise run to its end. The result is
  the new store, the generated proxy id and the URL the promise resolves to.
\<close>

definition createProxy :: "world \<Rightarrow> js_value list \<Rightarrow> world \<times> string \<times> string" where
  "createProxy w args =
     (let dest = (if length args \<ge> 2 \<and> \<not> IsNull (args ! 0) \<and> \<not> IsNull (args ! 1)
                  then String_js (args ! 0) @ '':'' @ String_js (args ! 1)
                  else default_destination);
          proxyID = ''proxy_'' @ Sprintf_d (length (activeConnections (proxy w)));
          dm = (case destinations (proxy w) of None \<Rightarrow> [] | Some m \<Rightarrow> m);
          w' = w\<lparr>proxy := (proxy w)\<lparr>destinations := Some (AList.update proxyID dest dm)\<rparr>\<rparr>
      in (w', proxyID, ''ws://rdcleanpath.proxy.local/'' @ proxyID))"

text \<open>
  \<^verbatim>\<open>HandleWebSocketConnection\<close>: a lookup in a nil map, or of a missing key, gives the
  empty string. The new \<^verbatim>\<open>proxyConnection\<close> is allocated at \<open>next_ptr\<close>.
\<close>

definition HandleWebSocketConnection :: "world \<Rightarrow> ws_handlers \<Rightarrow> string \<Rightarrow> world" where
  "HandleWebSocketConnection w ws proxyID =
     (let looked = (case destinations (proxy w) of None \<Rightarrow> []
                    | Some m \<Rightarrow> (case map_of m proxyID of None \<Rightarrow> [] | Some s \<Rightarrow> s));
          dest = (if looked = [] then default_destination else looked);
          c = next_ptr w;
          conn = \<lparr>id_c = proxyID, destination = dest, rdpConn = None, tlsConn = None,
                  wsHandlers = ws, ctx_done = False\<rparr>
      in w\<lparr>heap := (heap w)(c := conn), next_ptr := Suc c,
           proxy := (proxy w)\<lparr>activeConnections :=
                      AList.update proxyID c (activeConnections (proxy w))\<rparr>\<rparr>)"

text \<open>\<^verbatim>\<open>conn.cancel()\<close>, also what the \<^verbatim>\<open>onGoClose\<close> callback does.\<close>

definition cancel :: "world \<Rightarrow> nat \<Rightarrow> world" where
  "cancel w c = upd_conn c (\<lambda>x. x\<lparr>ctx_done := True\<rparr>) (emit (CtxCancel c) w)"

definition cleanupConnection :: "world \<Rightarrow> nat \<Rightarrow> world" where
  "cleanupConnection w c =
     (let w1 = cancel w c;
          w2 = (case tlsConn (heap w1 c) of None \<Rightarrow> w1
                | Some t \<Rightarrow> upd_conn c (\<lambda>x. x\<lparr>tlsConn := None\<rparr>) (emit (TlsClose t) w1));
          w3 = (case rdpConn (heap w2 c) of None \<Rightarrow> w2
                | Some h \<Rightarrow> upd_conn c (\<lambda>x. x\<lparr>rdpConn := None\<rparr>) (emit (ConnClose h) w2))
      in w3\<lparr>proxy := (proxy w3)\<lparr>activeConnections :=
               AList.delete (id_c (heap w3 c)) (activeConnections (proxy w3))\<rparr>\<rparr>)"

subsection \<open>Senders\<close>

definition sendToWebSocket :: "world \<Rightarrow> nat \<Rightarrow> bytes \<Rightarrow> world" where
  "sendToWebSocket w c data =
     (if has_receiveFromGo (wsHandlers (heap w c)) then emit (WsReceiveFromGo c data) w
      else if has_send (wsHandlers (heap w c)) then emit (WsSend c data) w
      else w)"

definition sendRDCleanPathPDU :: "deps \<Rightarrow> world \<Rightarrow> nat \<Rightarrow> RDCleanPathPDU \<Rightarrow> world" where
  "sendRDCleanPathPDU d w c pdu =
     (let w1 = emit (Marshal pdu) w
      in case asn1_Marshal d pdu of None \<Rightarrow> w1 | Some data \<Rightarrow> sendToWebSocket w1 c data)"

definition errorPDU :: "string \<Rightarrow> RDCleanPathPDU" where
  "errorPDU errorMsg = zeroPDU\<lparr>Version := RDCleanPathVersion, Error := Some (bytes_of_string errorMsg)\<rparr>"

definition sendRDCleanPathError :: "deps \<Rightarrow> world \<Rightarrow> nat \<Rightarrow> string \<Rightarrow> world" where
  "sendRDCleanPathError d w c errorMsg =
     (let pdu = errorPDU errorMsg;
          w1 = emit (Marshal pdu) w
      in case asn1_Marshal d pdu of None \<Rightarrow> w1 | Some data \<Rightarrow> sendToWebSocket w1 c data)"

subsection \<open>Negotiation\<close>

text \<open>
  The wait \<^verbatim>\<open><-conn.ctx.Done()\<close> followed by \<^verbatim>\<open>cleanupConnection\<close>, the tail of both
  setup functions: the goroutine goes on at once when the scope is already cancelled,
  and parks otherwise. \<open>resume_after_done\<close> is what a parked goroutine does when the
  scope is cancelled later.
\<close>

definition await_done_then_cleanup :: "world \<Rightarrow> nat \<Rightarrow> outcome" where
  "await_done_then_cleanup w c =
     (if ctx_done (heap w c) then Returned (cleanupConnection w c) else Blocked w)"

definition resume_after_done :: "world \<Rightarrow> nat \<Rightarrow> world" where
  "resume_after_done w c = cleanupConnection w c"

text \<open>
  The exchange of the X.224 frame that opens both setup functions: \<open>Inl\<close> is the store
  at the early return, \<open>Inr\<close> the store and the response read (nil when the request
  carried no frame).
\<close>

definition forward_x224 ::
  "deps \<Rightarrow> world \<Rightarrow> nat \<Rightarrow> nat \<Rightarrow> RDCleanPathPDU \<Rightarrow> world + world \<times> bytes option" where
  "forward_x224 d w c h pdu =
     (if slice_len (X224ConnectionPDU pdu) > 0 then
        (let frame = slice_elems (X224ConnectionPDU pdu);
             w1 = emit (ConnWrite h frame) w
         in if \<not> conn_Write_ok d frame
            then Inl (sendRDCleanPathError d w1 c ''Failed to forward X.224'')
            else (let w2 = emit (ConnRead h 1024) w1
                  in case conn_Read d 1024 of
                       None \<Rightarrow> Inl (sendRDCleanPathError d w2 c ''Failed to read X.224 response'')
                     | Some response \<Rightarrow> Inr (w2, Some response)))
      else Inr (w, None))"

text \<open>
  Both setup functions are called by \<^verbatim>\<open>processRDCleanPathPDU\<close> right after it has stored
  the dialed connection in \<^verbatim>\<open>conn.rdpConn\<close>. They use that field without a test, so
  a nil \<^verbatim>\<open>rdpConn\<close> is a nil dereference where the connection is first needed.
\<close>

definition setupTLSConnection :: "deps \<Rightarrow> world \<Rightarrow> nat \<Rightarrow> RDCleanPathPDU \<Rightarrow> outcome" where
  "setupTLSConnection d w c pdu =
     (case rdpConn (heap w c) of
        None \<Rightarrow> Panicked w
      | Some h \<Rightarrow>
         (case forward_x224 d w c h pdu of
            Inl w' \<Rightarrow> Returned w'
          | Inr (w3, x224Response) \<Rightarrow>
             (let w4 = upd_conn c (\<lambda>x. x\<lparr>tlsConn := Some h\<rparr>) w3;
                  w5 = emit (TlsHandshake h) w4
              in case tls_PeerCertificates d of
                   None \<Rightarrow> Returned (sendRDCleanPathError d w5 c ''TLS handshake failed'')
                 | Some certs \<Rightarrow>
                    (let certChain = (if length certs > 0 then Some (map Raw certs) else None);
                         responsePDU = zeroPDU\<lparr>Version := RDCleanPathVersion,
                                          ServerAddr := destination (heap w5 c),
                                          ServerCertChain := certChain\<rparr>;
                         responsePDU' = (if slice_len x224Response > 0
                                         then responsePDU\<lparr>X224ConnectionPDU := x224Response\<rparr>
                                         else responsePDU);
                         w6 = sendRDCleanPathPDU d w5 c responsePDU';
                         w7 = emit (Go ForwardTLSToWS c) w6
                     in await_done_then_cleanup w7 c))))"

definition setupPlainConnection :: "deps \<Rightarrow> world \<Rightarrow> nat \<Rightarrow> RDCleanPathPDU \<Rightarrow> outcome" where
  "setupPlainConnection d w c pdu =
     (if slice_len (X224ConnectionPDU pdu) > 0 then
        (case rdpConn (heap w c) of
           None \<Rightarrow> Panicked w
         | Some h \<Rightarrow>
            (case forward_x224 d w c h pdu of
               Inl w' \<Rightarrow> Returned w'
             | Inr (w2, response) \<Rightarrow>
                (let responsePDU = zeroPDU\<lparr>Version := RDCleanPathVersion,
                                     X224ConnectionPDU := response,
                                     ServerAddr := destination (heap w2 c)\<rparr>;
                     w3 = sendRDCleanPathPDU d w2 c responsePDU;
                     w4 = emit (Go ForwardTCPToWS c) w3
                 in await_done_then_cleanup w4 c)))
      else
        (let responsePDU = zeroPDU\<lparr>Version := RDCleanPathVersion,
                             ServerAddr := destination (heap w c)\<rparr>;
             w3 = sendRDCleanPathPDU d w c responsePDU;
             w4 = emit (Go ForwardTCPToWS c) w3
         in await_done_then_cleanup w4 c))"

text \<open>The local \<^verbatim>\<open>destination\<close> of \<^verbatim>\<open>processRDCleanPathPDU\<close>: the address it dials.\<close>

definition dialed_destination :: "world \<Rightarrow> nat \<Rightarrow> RDCleanPathPDU \<Rightarrow> string" where
  "dialed_destination w c pdu =
     (if Destination pdu \<noteq> [] then Destination pdu else destination (heap w c))"

definition processRDCleanPathPDU :: "deps \<Rightarrow> world \<Rightarrow> nat \<Rightarrow> RDCleanPathPDU \<Rightarrow> outcome" where
  "processRDCleanPathPDU d w c pdu =
     (if Version pdu \<noteq> RDCleanPathVersion
      then Returned (sendRDCleanPathError d w c ''Unsupported version'')
      else
        (let dest = dialed_destination w c pdu;
             w1 = emit (Dial dest) w
         in case nbClient_Dial d dest of
              None \<Rightarrow> Returned (cleanupConnection (sendRDCleanPathError d w1 c ''Connection failed'') c)
            | Some h \<Rightarrow>
               (let w2 = upd_conn c (\<lambda>x. x\<lparr>rdpConn := Some h\<rparr>) w1;
                    useTLS = HasSuffix dest '':3389''
                in if useTLS then setupTLSConnection d w2 c pdu
                   else setupPlainConnection d w2 c pdu)))"

subsection \<open>Inbound messages\<close>

definition forwardToRDP :: "world \<Rightarrow> nat \<Rightarrow> bytes \<Rightarrow> world" where
  "forwardToRDP w c bs =
     (case tlsConn (heap w c) of
        Some t \<Rightarrow> emit (TlsWrite t bs) w
      | None \<Rightarrow> (case rdpConn (heap w c) of
                   Some h \<Rightarrow> emit (ConnWrite h bs) w
                 | None \<Rightarrow> w))"

text \<open>
  \<^verbatim>\<open>handleDirectRDP\<close>. Its first statement defers \<^verbatim>\<open>cleanupConnection\<close>, so every
  return, the one at the end of the body too, runs it.
\<close>

definition handleDirectRDP_body :: "deps \<Rightarrow> world \<Rightarrow> nat \<Rightarrow> bytes \<Rightarrow> world" where
  "handleDirectRDP_body d w c firstPacket =
     (let dest = destination (heap w c);
          w1 = emit (Dial dest) w
      in case nbClient_Dial d dest of
           None \<Rightarrow> w1
         | Some h \<Rightarrow>
            (let w2 = upd_conn c (\<lambda>x. x\<lparr>rdpConn := Some h\<rparr>) w1;
                 w3 = emit (ConnWrite h firstPacket) w2
             in if \<not> conn_Write_ok d firstPacket then w3
                else (let w4 = emit (ConnRead h 1024) w3
                      in case conn_Read d 1024 of
                           None \<Rightarrow> w4
                         | Some response \<Rightarrow>
                            (let w5 = sendToWebSocket w4 c response;
                                 w6 = emit (Go ForwardWSToTCP c) w5
                             in emit (Go ForwardTCPToWS c) w6))))"

definition handleDirectRDP :: "deps \<Rightarrow> world \<Rightarrow> nat \<Rightarrow> bytes \<Rightarrow> outcome" where
  "handleDirectRDP d w c firstPacket =
     Returned (cleanupConnection (handleDirectRDP_body d w c firstPacket) c)"

text \<open>
  What the boundary hands to \<^verbatim>\<open>onGoMessage\<close>: a \<^verbatim>\<open>Uint8Array\<close> or anything else.
\<close>

datatype js_data = Uint8Array bytes | OtherData

text \<open>The package's own \<^verbatim>\<open>min\<close>, on lengths.\<close>

definition min_go :: "nat \<Rightarrow> nat \<Rightarrow> nat" where
  "min_go a b = (if a < b then a else b)"

text \<open>
  \<^verbatim>\<open>handleWebSocketMessage\<close>, with the goroutine it starts for the message run until
  it returns or parks. After a failed decode the handler logs
  \<^verbatim>\<open>bytes[:min(len(bytes), 20)]\<close>; the slice is taken here too, since a slice out of
  range would end the goroutine.
\<close>

definition handleWebSocketMessage :: "deps \<Rightarrow> world \<Rightarrow> nat \<Rightarrow> js_data \<Rightarrow> outcome" where
  "handleWebSocketMessage d w c data =
     (case data of
        OtherData \<Rightarrow> Returned w
      | Uint8Array bs \<Rightarrow>
         (if rdpConn (heap w c) \<noteq> None \<or> tlsConn (heap w c) \<noteq> None
          then Returned (forwardToRDP w c bs)
          else (case asn1_Unmarshal d bs of
                  None \<Rightarrow>
                    (case slice_to bs (min_go (length bs) 20) of
                       Inl e \<Rightarrow> Panicked w
                     | Inr logged \<Rightarrow>
                        (if length bs > 0 \<and> bs ! 0 = 0x03
                         then handleDirectRDP d w c bs
                         else Returned w))
                | Some pdu \<Rightarrow> processRDCleanPathPDU d w c pdu)))"

subsection \<open>Traces and a starting store\<close>

definition zeroConn :: proxyConnection where
  "zeroConn = \<lparr>id_c = [], destination = [], rdpConn = None, tlsConn = None,
     wsHandlers = \<lparr>has_receiveFromGo = False, has_send = False\<rparr>, ctx_done = False\<rparr>"

definition world0 :: world where
  "world0 = \<lparr>proxy = NewRDCleanPathProxy, heap = (\<lambda>_. zeroConn), next_ptr = 0, trace = []\<rparr>"

text \<open>
  A boundary with both methods, and a remote that accepts the dial, takes every write,
  answers the first read with an X.224 connection confirm and presents two
  certificates in the TLS handshake. \<open>session0\<close> is the store after one endpoint for
  \<^verbatim>\<open>host:3389\<close> was created and a boundary attached to it.
\<close>

definition ws_boundary :: ws_handlers where
  "ws_boundary = \<lparr>has_receiveFromGo = True, has_send = True\<rparr>"

definition remote_ok :: deps where
  "remote_ok = \<lparr>asn1_Unmarshal = codec_Unmarshal, asn1_Marshal = codec_Marshal,
     nbClient_Dial = (\<lambda>a. Some 7), conn_Write_ok = (\<lambda>b. True),
     conn_Read_data = Some [0x03, 0x00, 0x00, 0x0B, 0x06, 0xD0, 0x00, 0x00, 0x12, 0x34, 0x00],
     tls_PeerCertificates = Some [Certificate [0x30, 0x03, 0x01, 0x02, 0x03],
                                  Certificate [0x30, 0x01, 0x09]]\<rparr>"

definition session0 :: world where
  "session0 =
     HandleWebSocketConnection (fst (createProxy world0 [JsString ''host'', JsString ''3389'']))
       ws_boundary ''proxy_0''"

text \<open>
  Variants of the remote: one that fails the write of the X.224 frame, one that fails
  the read of its answer, one that fails the TLS handshake.
\<close>

definition remote_write_fails :: deps where
  "remote_write_fails = remote_ok\<lparr>conn_Write_ok := (\<lambda>b. False)\<rparr>"

definition remote_read_fails :: deps where
  "remote_read_fails = remote_ok\<lparr>conn_Read_data := None\<rparr>"

definition remote_handshake_fails :: deps where
  "remote_handshake_fails = remote_ok\<lparr>tls_PeerCertificates := None\<rparr>"

text \<open>An X.224 connection request, the first packet of a client that speaks raw RDP.\<close>

definition x224_request :: bytes where
  "x224_request = [0x03, 0x00, 0x00, 0x0B, 0x06, 0xE0, 0x00, 0x00, 0x00, 0x00, 0x00]"




text \<open>What \<^verbatim>\<open>sendToWebSocket\<close> hands to the boundary, as events.\<close>

definition ws_delivery :: "ws_handlers \<Rightarrow> nat \<Rightarrow> bytes \<Rightarrow> event list" where
  "ws_delivery ws c data =
     (if has_receiveFromGo ws then [WsReceiveFromGo c data]
      else if has_send ws then [WsSend c data] else [])"

text \<open>
  The exchange of the X.224 frame goes through: the request carries no frame, or the
  write succeeds and the read returns.
\<close>

definition x224_exchange_ok :: "deps \<Rightarrow> RDCleanPathPDU \<Rightarrow> bool" where
  "x224_exchange_ok d pdu =
     (slice_len (X224ConnectionPDU pdu) = 0 \<or>
      (conn_Write_ok d (slice_elems (X224ConnectionPDU pdu)) \<and> conn_Read_data d \<noteq> None))"

text \<open>Projections of a trace.\<close>

fun marshalled :: "event list \<Rightarrow> RDCleanPathPDU list" where
  "marshalled [] = []"
| "marshalled (Marshal p # es) = p # marshalled es"
| "marshalled (_ # es) = marshalled es"

fun ws_out :: "event list \<Rightarrow> bytes list" where
  "ws_out [] = []"
| "ws_out (WsReceiveFromGo _ bs # es) = bs # ws_out es"
| "ws_out (WsSend _ bs # es) = bs # ws_out es"
| "ws_out (_ # es) = ws_out es"

fun dials :: "event list \<Rightarrow> string list" where
  "dials [] = []"
| "dials (Dial a # es) = a # dials es"
| "dials (_ # es) = dials es"

fun remote_writes :: "event list \<Rightarrow> bytes list" where
  "remote_writes [] = []"
| "remote_writes (ConnWrite _ bs # es) = bs # remote_writes es"
| "remote_writes (TlsWrite _ bs # es) = bs # remote_writes es"
| "remote_writes (_ # es) = remote_writes es"

fun closes :: "event list \<Rightarrow> nat list" where
  "closes [] = []"
| "closes (ConnClose h # es) = h # closes es"
| "closes (TlsClose h # es) = h # closes es"
| "closes (_ # es) = closes es"

text \<open>No marshalled PDU of a trace carries a certificate chain.\<close>

definition chainless :: "event list \<Rightarrow> bool" where
  "chainless es = list_all (\<lambda>r. ServerCertChain r = None) (marshalled es)"

text \<open>\<open>session0\<close> once a TLS negotiation has installed both handles.\<close>

definition established_tls :: world where
  "established_tls = upd_conn 0 (\<lambda>x. x\<lparr>rdpConn := Some 7, tlsConn := Some 7\<rparr>) session0"

section \<open>Properties of the engine\<close>

subsection \<open>Auxiliary facts\<close>

lemma trace_emit: "trace (emit e w) = trace w @ [e]" by (simp add: emit_def)

lemma heap_emit: "heap (emit e w) = heap w" by (simp add: emit_def)

lemma proxy_emit: "proxy (emit e w) = proxy w" by (simp add: emit_def)

lemma trace_upd_conn: "trace (upd_conn c f w) = trace w" by (simp add: upd_conn_def)

lemma heap_upd_conn: "heap (upd_conn c f w) = (heap w)(c := f (heap w c))" by (simp add: upd_conn_def)

lemma proxy_upd_conn: "proxy (upd_conn c f w) = proxy w" by (simp add: upd_conn_def)

lemmas store_simps = trace_emit heap_emit proxy_emit trace_upd_conn heap_upd_conn proxy_upd_conn

lemma Sprintf_d_0: "Sprintf_d 0 = ''0''"
  by code_simp

lemma session0_eq:
  "session0 = \<lparr>proxy = \<lparr>activeConnections = [(''proxy_0'', 0)],
                          destinations = Some [(''proxy_0'', ''host:3389'')]\<rparr>,
               heap = (\<lambda>_. zeroConn)(0 := \<lparr>id_c = ''proxy_0'', destination = ''host:3389'',
                         rdpConn = None, tlsConn = None, wsHandlers = ws_boundary, ctx_done = False\<rparr>),
               next_ptr = 1, trace = []\<rparr>"
  by (simp add: session0_def createProxy_def HandleWebSocketConnection_def world0_def
      NewRDCleanPathProxy_def Sprintf_d_0 Let_def)

lemma log_slice: "slice_to bs (min_go (length bs) n) = Inr (take (min_go (length bs) n) bs)"
  by (simp add: slice_to_def min_go_def)

lemma sendToWebSocket_eq:
  "sendToWebSocket w c data = w\<lparr>trace := trace w @ ws_delivery (wsHandlers (heap w c)) c data\<rparr>"
  by (simp add: sendToWebSocket_def ws_delivery_def emit_def)

lemma marshalled_append[simp]: "marshalled (xs @ ys) = marshalled xs @ marshalled ys"
  by (induction xs rule: marshalled.induct) auto

lemma ws_out_append[simp]: "ws_out (xs @ ys) = ws_out xs @ ws_out ys"
  by (induction xs rule: ws_out.induct) auto

lemma dials_append[simp]: "dials (xs @ ys) = dials xs @ dials ys"
  by (induction xs rule: dials.induct) auto

lemma remote_writes_append[simp]: "remote_writes (xs @ ys) = remote_writes xs @ remote_writes ys"
  by (induction xs rule: remote_writes.induct) auto

lemma closes_append[simp]: "closes (xs @ ys) = closes xs @ closes ys"
  by (induction xs rule: closes.induct) auto

lemma marshalled_ws_delivery[simp]: "marshalled (ws_delivery ws c data) = []"
  by (simp add: ws_delivery_def)

lemma dials_ws_delivery[simp]: "dials (ws_delivery ws c data) = []"
  by (simp add: ws_delivery_def)

lemma remote_writes_ws_delivery[simp]: "remote_writes (ws_delivery ws c data) = []"
  by (simp add: ws_delivery_def)

lemma closes_ws_delivery[simp]: "closes (ws_delivery ws c data) = []"
  by (simp add: ws_delivery_def)

lemma sendRDCleanPathPDU_eq:
  "sendRDCleanPathPDU d w c pdu =
     w\<lparr>trace := trace w @ Marshal pdu #
        (case asn1_Marshal d pdu of None \<Rightarrow> [] | Some data \<Rightarrow> ws_delivery (wsHandlers (heap w c)) c data)\<rparr>"
  by (simp add: sendRDCleanPathPDU_def sendToWebSocket_eq emit_def split: option.splits)

lemma sendRDCleanPathError_eq:
  "sendRDCleanPathError d w c msg =
     w\<lparr>trace := trace w @ Marshal (errorPDU msg) #
        (case asn1_Marshal d (errorPDU msg) of None \<Rightarrow> [] | Some data \<Rightarrow> ws_delivery (wsHandlers (heap w c)) c data)\<rparr>"
  by (simp add: sendRDCleanPathError_def sendToWebSocket_eq emit_def split: option.splits)

lemma cleanupConnection_eq:
  "cleanupConnection w c =
     w\<lparr>trace := trace w @ CtxCancel c #
          (case tlsConn (heap w c) of None \<Rightarrow> [] | Some t \<Rightarrow> [TlsClose t]) @
          (case rdpConn (heap w c) of None \<Rightarrow> [] | Some h \<Rightarrow> [ConnClose h]),
        heap := (heap w)(c := (heap w c)\<lparr>ctx_done := True, tlsConn := None, rdpConn := None\<rparr>),
        proxy := (proxy w)\<lparr>activeConnections := AList.delete (id_c (heap w c)) (activeConnections (proxy w))\<rparr>\<rparr>"
  by (cases w) (auto simp: cleanupConnection_def cancel_def emit_def upd_conn_def Let_def fun_eq_iff split: option.splits)

lemma HasSuffix_host: "HasSuffix ''host:3389'' '':3389''" by code_simp

lemma HasSuffix_other: "HasSuffix ''other:3389'' '':3389''" by code_simp

lemma HasSuffix_vnc: "\<not> HasSuffix ''host:5900'' '':3389''" by code_simp


lemma Unmarshal_junk: "codec_Unmarshal [0x00, 0x01] = None" by code_simp

lemma forward_x224_ok:
  "x224_exchange_ok d pdu \<Longrightarrow>
   forward_x224 d w c h pdu =
     (if slice_len (X224ConnectionPDU pdu) > 0
      then Inr (w\<lparr>trace := trace w @ [ConnWrite h (slice_elems (X224ConnectionPDU pdu)), ConnRead h 1024]\<rparr>,
                conn_Read d 1024)
      else Inr (w, None))"
  by (auto simp: forward_x224_def x224_exchange_ok_def emit_def conn_Read_def Let_def)

lemma await_trace:
  "trace (world_of (await_done_then_cleanup w c)) =
     trace w @ (if ctx_done (heap w c) then CtxCancel c #
          (case tlsConn (heap w c) of None \<Rightarrow> [] | Some t \<Rightarrow> [TlsClose t]) @
          (case rdpConn (heap w c) of None \<Rightarrow> [] | Some h \<Rightarrow> [ConnClose h]) else [])"
  by (simp add: await_done_then_cleanup_def cleanupConnection_eq)

lemma marshalled_cleanup[simp]:
  "marshalled (CtxCancel c # (case x of None \<Rightarrow> [] | Some t \<Rightarrow> [TlsClose t]) @
          (case y of None \<Rightarrow> [] | Some h \<Rightarrow> [ConnClose h])) = []"
  by (simp split: option.splits)

lemma ws_out_cleanup[simp]:
  "ws_out (CtxCancel c # (case x of None \<Rightarrow> [] | Some t \<Rightarrow> [TlsClose t]) @
          (case y of None \<Rightarrow> [] | Some h \<Rightarrow> [ConnClose h])) = []"
  by (simp split: option.splits)

lemma C1_tls_part:
  assumes "Version pdu = RDCleanPathVersion"
    and "nbClient_Dial d (dialed_destination w c pdu) = Some h"
    and "HasSuffix (dialed_destination w c pdu) '':3389''"
    and "x224_exchange_ok d pdu"
    and "tls_PeerCertificates d = Some certs"
  shows "\<exists>r. marshalled (new_events w (world_of (processRDCleanPathPDU d w c pdu))) = [r]
          \<and> slice_elems (ServerCertChain r) = map Raw certs
          \<and> slice_len (ServerCertChain r) = length certs
          \<and> ws_out (new_events w (world_of (processRDCleanPathPDU d w c pdu))) =
              (case asn1_Marshal d r of None \<Rightarrow> []
               | Some data \<Rightarrow> ws_out (ws_delivery (wsHandlers (heap w c)) c data))"
  using assms
  by (auto simp: processRDCleanPathPDU_def setupTLSConnection_def forward_x224_ok
      sendRDCleanPathPDU_eq await_trace store_simps new_events_def Let_def
      slice_elems_def slice_len_def split: option.splits)

lemma chainless_append: "chainless (es @ fs) = (chainless es \<and> chainless fs)"
  by (simp add: chainless_def)

lemma chainless_Nil [simp]: "chainless []"
  by (simp add: chainless_def)

lemma chainless_Cons [simp]:
  "chainless (e # es) =
     ((case e of Marshal r \<Rightarrow> ServerCertChain r = None | _ \<Rightarrow> True) \<and> chainless es)"
  by (cases e) (simp_all add: chainless_def)

lemma chainless_error: "chainless (new_events w (sendRDCleanPathError d w c msg))"
  by (simp add: chainless_def sendRDCleanPathError_eq new_events_def errorPDU_def zeroPDU_def
      split: option.splits)

lemma trace_sendRDCleanPathError:
  "trace (sendRDCleanPathError d w c msg) = trace w @ new_events w (sendRDCleanPathError d w c msg)"
  by (simp add: sendRDCleanPathError_eq new_events_def)

lemma trace_sendRDCleanPathPDU:
  "trace (sendRDCleanPathPDU d w c pdu) = trace w @ new_events w (sendRDCleanPathPDU d w c pdu)"
  by (simp add: sendRDCleanPathPDU_eq new_events_def)

lemma chainless_response:
  "ServerCertChain pdu = None \<Longrightarrow> chainless (new_events w (sendRDCleanPathPDU d w c pdu))"
  by (simp add: chainless_def sendRDCleanPathPDU_eq new_events_def split: option.splits)

lemma chainless_cleanup: "chainless (new_events w (cleanupConnection w c))"
  by (simp add: chainless_def cleanupConnection_eq new_events_def split: option.splits)

lemma trace_cleanup:
  "trace (cleanupConnection w c) = trace w @ new_events w (cleanupConnection w c)"
  by (simp add: cleanupConnection_eq new_events_def)

lemma new_events_trans:
  "trace w1 = trace w @ es \<Longrightarrow> trace w2 = trace w1 @ fs \<Longrightarrow> new_events w w2 = es @ fs"
  by (simp add: new_events_def)

lemma new_events_self [simp]: "new_events w w = []"
  by (simp add: new_events_def)

lemma await_chainless:
  "\<exists>es. trace (world_of (await_done_then_cleanup w c)) = trace w @ es \<and> chainless es"
  by (auto simp: await_done_then_cleanup_def chainless_def cleanupConnection_eq split: option.splits)

lemma forward_x224_Inl:
  "forward_x224 d w c h pdu = Inl w' \<Longrightarrow> \<exists>es. trace w' = trace w @ es \<and> chainless es"
  by (auto simp: forward_x224_def sendRDCleanPathError_eq emit_def Let_def errorPDU_def zeroPDU_def
      chainless_def split: option.splits if_splits)

lemma forward_x224_Inr:
  "forward_x224 d w c h pdu = Inr (w', r) \<Longrightarrow>
     \<exists>es. trace w' = trace w @ es \<and> chainless es \<and> heap w' = heap w"
  by (auto simp: forward_x224_def emit_def Let_def chainless_def split: option.splits if_splits)

lemma setupPlain_chain:
  "\<exists>es. trace (world_of (setupPlainConnection d w c pdu)) = trace w @ es \<and> chainless es"
proof (cases "slice_len (X224ConnectionPDU pdu) > 0")
  case False
  let ?r = "zeroPDU\<lparr>Version := RDCleanPathVersion, ServerAddr := destination (heap w c)\<rparr>"
  let ?w3 = "sendRDCleanPathPDU d w c ?r"
  let ?w4 = "emit (Go ForwardTCPToWS c) ?w3"
  have a: "trace ?w4 = trace w @ (new_events w ?w3 @ [Go ForwardTCPToWS c])"
    using trace_sendRDCleanPathPDU [of d w c ?r] by (simp add: store_simps)
  have b: "chainless (new_events w ?w3 @ [Go ForwardTCPToWS c])"
    using chainless_response [of ?r w d c] by (simp add: chainless_append zeroPDU_def)
  from await_chainless [of ?w4 c] obtain fs where
    "trace (world_of (await_done_then_cleanup ?w4 c)) = trace ?w4 @ fs" "chainless fs" by blast
  with a b have "trace (world_of (await_done_then_cleanup ?w4 c)) =
      trace w @ ((new_events w ?w3 @ [Go ForwardTCPToWS c]) @ fs)
      \<and> chainless ((new_events w ?w3 @ [Go ForwardTCPToWS c]) @ fs)"
    by (simp add: chainless_append)
  then show ?thesis
    using False by (auto simp: setupPlainConnection_def Let_def simp del: append_assoc)
next
  case True
  show ?thesis
  proof (cases "rdpConn (heap w c)")
    case None
    with True show ?thesis
      by (simp add: setupPlainConnection_def chainless_def)
  next
    case (Some h)
    show ?thesis
    proof (cases "forward_x224 d w c h pdu")
      case (Inl w')
      with True Some forward_x224_Inl [OF Inl] show ?thesis
        by (simp add: setupPlainConnection_def)
    next
      case (Inr p)
      obtain w2 resp where p: "p = (w2, resp)" by (cases p)
      from forward_x224_Inr [OF Inr [unfolded p]] obtain es where
        es: "trace w2 = trace w @ es" "chainless es" by blast
      let ?r = "zeroPDU\<lparr>Version := RDCleanPathVersion, X224ConnectionPDU := resp,
                   ServerAddr := destination (heap w2 c)\<rparr>"
      let ?w3 = "sendRDCleanPathPDU d w2 c ?r"
      let ?w4 = "emit (Go ForwardTCPToWS c) ?w3"
      have a: "trace ?w4 = trace w @ (es @ new_events w2 ?w3 @ [Go ForwardTCPToWS c])"
        using trace_sendRDCleanPathPDU [of d w2 c ?r] es by (simp add: store_simps)
      have b: "chainless (es @ new_events w2 ?w3 @ [Go ForwardTCPToWS c])"
        using chainless_response [of ?r w2 d c] es
        by (simp add: chainless_append zeroPDU_def)
      from await_chainless [of ?w4 c] obtain fs where
        "trace (world_of (await_done_then_cleanup ?w4 c)) = trace ?w4 @ fs" "chainless fs" by blast
      with a b have "trace (world_of (await_done_then_cleanup ?w4 c)) =
          trace w @ ((es @ new_events w2 ?w3 @ [Go ForwardTCPToWS c]) @ fs)
          \<and> chainless ((es @ new_events w2 ?w3 @ [Go ForwardTCPToWS c]) @ fs)"
        by (simp add: chainless_append)
      then show ?thesis
        using True Some Inr p by (auto simp: setupPlainConnection_def Let_def simp del: append_assoc)
    qed
  qed
qed

lemma C1_plain_part:
  assumes "\<not> HasSuffix (dialed_destination w c pdu) '':3389''"
  shows "chainless (new_events w (world_of (processRDCleanPathPDU d w c pdu)))"
proof (cases "Version pdu \<noteq> RDCleanPathVersion")
  case True
  then show ?thesis
    by (simp add: processRDCleanPathPDU_def chainless_error)
next
  case v: False
  let ?w1 = "emit (Dial (dialed_destination w c pdu)) w"
  show ?thesis
  proof (cases "nbClient_Dial d (dialed_destination w c pdu)")
    case None
    let ?e = "sendRDCleanPathError d ?w1 c ''Connection failed''"
    have "new_events w (cleanupConnection ?e c) =
        ([Dial (dialed_destination w c pdu)] @ new_events ?w1 ?e) @ new_events ?e (cleanupConnection ?e c)"
      by (rule new_events_trans [where ?w1.0 = ?e])
         (simp_all add: trace_sendRDCleanPathError [of d ?w1] trace_cleanup [of ?e] store_simps)
    then show ?thesis
      using v None
      by (simp add: processRDCleanPathPDU_def Let_def chainless_append chainless_error chainless_cleanup)
  next
    case (Some h)
    let ?w2 = "upd_conn c (\<lambda>x. x\<lparr>rdpConn := Some h\<rparr>) ?w1"
    have eq: "processRDCleanPathPDU d w c pdu = setupPlainConnection d ?w2 c pdu"
      using v Some assms by (simp add: processRDCleanPathPDU_def Let_def)
    from setupPlain_chain [of d ?w2 c pdu] obtain es where
      es: "trace (world_of (setupPlainConnection d ?w2 c pdu)) = trace ?w2 @ es" "chainless es"
      by blast
    have "new_events w (world_of (setupPlainConnection d ?w2 c pdu)) =
        [Dial (dialed_destination w c pdu)] @ es"
      by (rule new_events_trans [where ?w1.0 = ?w2]) (simp_all add: es store_simps)
    then show ?thesis
      using es eq by (simp add: chainless_append)
  qed
qed

lemma dialed_session0 [simp]:
  "dialed_destination session0 0 pdu = (if Destination pdu \<noteq> [] then Destination pdu else ''host:3389'')"
  by (simp add: dialed_destination_def session0_eq)

lemmas scenario_simps =
  processRDCleanPathPDU_def setupTLSConnection_def setupPlainConnection_def forward_x224_def
  sendRDCleanPathPDU_eq sendRDCleanPathError_eq await_done_then_cleanup_def
  store_simps HasSuffix_host HasSuffix_other HasSuffix_vnc
  remote_ok_def codec_Marshal_def ws_delivery_def ws_boundary_def conn_Read_def
  slice_len_def slice_elems_def zeroPDU_def Let_def

lemma heap_session0_0:
  "heap session0 0 = \<lparr>id_c = ''proxy_0'', destination = ''host:3389'',
      rdpConn = None, tlsConn = None, wsHandlers = ws_boundary, ctx_done = False\<rparr>"
  by (simp add: session0_eq)

lemma proxy_session0:
  "proxy session0 = \<lparr>activeConnections = [(''proxy_0'', 0)],
                          destinations = Some [(''proxy_0'', ''host:3389'')]\<rparr>"
  by (simp add: session0_eq)

lemma trace_session0: "trace session0 = []"
  by (simp add: session0_eq)

subsection \<open>Certificate chain of the response (C1)\<close>

text \<open>
  C1. When a version-3390 request is dialed to a destination ending in \<^verbatim>\<open>:3389\<close>, the
  X.224 exchange (if any) goes through and the TLS handshake completes with the
  certificates \<open>certs\<close>, exactly one PDU is marshalled; its \<open>ServerCertChain\<close> holds the
  \<open>Raw\<close> bytes of \<open>certs\<close> in the order presented, one entry for each, and what
  reaches the boundary is the marshalling of that PDU. When the dialed destination does
  not end in \<^verbatim>\<open>:3389\<close> (the plain path), no PDU marshalled for the request, reply or
  error, carries a \<open>ServerCertChain\<close>.
\<close>

theorem C1_cert_chain:
  "(Version pdu = RDCleanPathVersion \<and>
    nbClient_Dial d (dialed_destination w c pdu) = Some h \<and>
    HasSuffix (dialed_destination w c pdu) '':3389'' \<and>
    x224_exchange_ok d pdu \<and> tls_PeerCertificates d = Some certs \<longrightarrow>
    (\<exists>r. marshalled (new_events w (world_of (processRDCleanPathPDU d w c pdu))) = [r]
        \<and> slice_elems (ServerCertChain r) = map Raw certs
        \<and> slice_len (ServerCertChain r) = length certs
        \<and> ws_out (new_events w (world_of (processRDCleanPathPDU d w c pdu))) =
            (case asn1_Marshal d r of None \<Rightarrow> []
             | Some data \<Rightarrow> ws_out (ws_delivery (wsHandlers (heap w c)) c data)))) \<and>
   (\<not> HasSuffix (dialed_destination w c pdu) '':3389'' \<longrightarrow>
    chainless (new_events w (world_of (processRDCleanPathPDU d w c pdu))))"
  using C1_tls_part [of pdu d w c h certs] C1_plain_part [of w c pdu d] by blast

theorem C1_cert_chain_witness:
  "HasSuffix (dialed_destination session0 0 (zeroPDU\<lparr>Version := RDCleanPathVersion\<rparr>)) '':3389'' \<and>
   x224_exchange_ok remote_ok (zeroPDU\<lparr>Version := RDCleanPathVersion\<rparr>) \<and>
   (\<exists>r. marshalled (new_events session0 (world_of (processRDCleanPathPDU remote_ok session0 0
            (zeroPDU\<lparr>Version := RDCleanPathVersion\<rparr>)))) = [r] \<and>
        slice_elems (ServerCertChain r) = [[0x30, 0x03, 0x01, 0x02, 0x03], [0x30, 0x01, 0x09]]) \<and>
   \<not> HasSuffix (dialed_destination session0 0
         (zeroPDU\<lparr>Version := RDCleanPathVersion, Destination := ''host:5900''\<rparr>)) '':3389'' \<and>
   chainless (new_events session0 (world_of (processRDCleanPathPDU remote_ok session0 0
         (zeroPDU\<lparr>Version := RDCleanPathVersion, Destination := ''host:5900''\<rparr>))))"
proof -
  let ?p = "zeroPDU\<lparr>Version := RDCleanPathVersion\<rparr>"
  let ?q = "zeroPDU\<lparr>Version := RDCleanPathVersion, Destination := ''host:5900''\<rparr>"
  have h1: "HasSuffix (dialed_destination session0 0 ?p) '':3389''"
    by (simp add: zeroPDU_def HasSuffix_host)
  have h2: "x224_exchange_ok remote_ok ?p"
    by (simp add: x224_exchange_ok_def zeroPDU_def slice_len_def)
  have h3: "\<not> HasSuffix (dialed_destination session0 0 ?q) '':3389''"
    by (simp add: zeroPDU_def HasSuffix_vnc)
  have h4: "Version ?p = RDCleanPathVersion \<and>
      nbClient_Dial remote_ok (dialed_destination session0 0 ?p) = Some 7 \<and>
      tls_PeerCertificates remote_ok = Some [Certificate [0x30, 0x03, 0x01, 0x02, 0x03],
                                  Certificate [0x30, 0x01, 0x09]]"
    by (simp add: remote_ok_def)
  from C1_cert_chain [of ?p remote_ok session0 0 7
      "[Certificate [0x30, 0x03, 0x01, 0x02, 0x03], Certificate [0x30, 0x01, 0x09]]"] h1 h2 h4
  have a: "\<exists>r. marshalled (new_events session0 (world_of (processRDCleanPathPDU remote_ok session0 0 ?p))) = [r] \<and>
        slice_elems (ServerCertChain r) = [[0x30, 0x03, 0x01, 0x02, 0x03], [0x30, 0x01, 0x09]]"
    by auto
  from C1_cert_chain [of ?q remote_ok session0 0] h3
  have b: "chainless (new_events session0 (world_of (processRDCleanPathPDU remote_ok session0 0 ?q)))"
    by blast
  from h1 h2 h3 a b show ?thesis by blast
qed

subsection \<open>Version mismatch (C2)\<close>

text \<open>
  C2. A request whose version is the supported version plus one, sent on \<open>session0\<close>:
  one error PDU is marshalled and nothing is dialed, but the function returns without
  \<^verbatim>\<open>cleanupConnection\<close>: the registry still maps \<^verbatim>\<open>proxy_0\<close> to the session and its
  scope is not cancelled.
\<close>

theorem C2_eval:
  "marshalled (trace (world_of (processRDCleanPathPDU remote_ok session0 0 (zeroPDU\<lparr>Version := RDCleanPathVersion + 1\<rparr>)))) = [errorPDU ''Unsupported version''] \<and>
   dials (trace (world_of (processRDCleanPathPDU remote_ok session0 0 (zeroPDU\<lparr>Version := RDCleanPathVersion + 1\<rparr>)))) = [] \<and>
   map_of (activeConnections (proxy (world_of (processRDCleanPathPDU remote_ok session0 0 (zeroPDU\<lparr>Version := RDCleanPathVersion + 1\<rparr>))))) ''proxy_0'' = Some 0 \<and>
   \<not> ctx_done (heap (world_of (processRDCleanPathPDU remote_ok session0 0 (zeroPDU\<lparr>Version := RDCleanPathVersion + 1\<rparr>))) 0)"
  by (simp add: processRDCleanPathPDU_def sendRDCleanPathError_eq session0_eq zeroPDU_def RDCleanPathVersion_def remote_ok_def codec_Marshal_def ws_delivery_def ws_boundary_def)

subsection \<open>Server address of the response (C3)\<close>

text \<open>
  C3. A request on \<open>session0\<close> (registered destination \<^verbatim>\<open>host:3389\<close>) whose
  \<open>Destination\<close> field is \<^verbatim>\<open>other:3389\<close>: the engine dials \<^verbatim>\<open>other:3389\<close>, and the
  response PDU carries \<open>ServerAddr\<close> \<^verbatim>\<open>host:3389\<close>, the registered destination, not the
  address dialed.
\<close>

theorem C3_server_addr_stale:
  "dials (trace (world_of (processRDCleanPathPDU remote_ok session0 0
      (zeroPDU\<lparr>Version := RDCleanPathVersion, Destination := ''other:3389''\<rparr>)))) = [''other:3389''] \<and>
   map ServerAddr (marshalled (trace (world_of (processRDCleanPathPDU remote_ok session0 0
      (zeroPDU\<lparr>Version := RDCleanPathVersion, Destination := ''other:3389''\<rparr>))))) = [''host:3389'']"
  by (simp add: scenario_simps heap_session0_0 trace_session0)

subsection \<open>Failures after the dial (C4)\<close>

text \<open>
  C4. On \<open>session0\<close>, after a successful dial (handle 7), a failed write of the X.224
  frame, a failed read of its answer, and a failed TLS handshake each leave the session
  as it is: the handle is still installed, no connection was closed, and the registry
  still holds the entry.
\<close>

theorem C4_no_cleanup_after_failure:
  "rdpConn (heap (world_of (processRDCleanPathPDU remote_write_fails session0 0
      (zeroPDU\<lparr>Version := RDCleanPathVersion, X224ConnectionPDU := Some x224_request\<rparr>))) 0) = Some 7 \<and>
   closes (trace (world_of (processRDCleanPathPDU remote_write_fails session0 0
      (zeroPDU\<lparr>Version := RDCleanPathVersion, X224ConnectionPDU := Some x224_request\<rparr>)))) = [] \<and>
   map_of (activeConnections (proxy (world_of (processRDCleanPathPDU remote_write_fails session0 0
      (zeroPDU\<lparr>Version := RDCleanPathVersion, X224ConnectionPDU := Some x224_request\<rparr>))))) ''proxy_0'' = Some 0 \<and>
   rdpConn (heap (world_of (processRDCleanPathPDU remote_read_fails session0 0
      (zeroPDU\<lparr>Version := RDCleanPathVersion, X224ConnectionPDU := Some x224_request\<rparr>))) 0) = Some 7 \<and>
   closes (trace (world_of (processRDCleanPathPDU remote_read_fails session0 0
      (zeroPDU\<lparr>Version := RDCleanPathVersion, X224ConnectionPDU := Some x224_request\<rparr>)))) = [] \<and>
   map_of (activeConnections (proxy (world_of (processRDCleanPathPDU remote_read_fails session0 0
      (zeroPDU\<lparr>Version := RDCleanPathVersion, X224ConnectionPDU := Some x224_request\<rparr>))))) ''proxy_0'' = Some 0 \<and>
   rdpConn (heap (world_of (processRDCleanPathPDU remote_handshake_fails session0 0
      (zeroPDU\<lparr>Version := RDCleanPathVersion\<rparr>))) 0) = Some 7 \<and>
   closes (trace (world_of (processRDCleanPathPDU remote_handshake_fails session0 0
      (zeroPDU\<lparr>Version := RDCleanPathVersion\<rparr>)))) = [] \<and>
   map_of (activeConnections (proxy (world_of (processRDCleanPathPDU remote_handshake_fails session0 0
      (zeroPDU\<lparr>Version := RDCleanPathVersion\<rparr>))))) ''proxy_0'' = Some 0"
  by (simp add: scenario_simps heap_session0_0 trace_session0 proxy_session0
      remote_write_fails_def remote_read_fails_def remote_handshake_fails_def x224_request_def)

subsection \<open>Direct mode (C5)\<close>



subsection \<open>Malformed first message (C6)\<close>

text \<open>
  C6, as amended. A first message (no handle installed yet) that fails decoding and
  does not start with the byte 0x03 is dropped: the handler returns with the store
  unchanged, so nothing is sent, nothing is dialed, the registry keeps the entry and the
  scope is not cancelled.
\<close>

theorem C6_dropped:
  assumes "rdpConn (heap w c) = None" "tlsConn (heap w c) = None"
    and "asn1_Unmarshal d bs = None" and "\<not> (length bs > 0 \<and> bs ! 0 = 0x03)"
  shows "handleWebSocketMessage d w c (Uint8Array bs) = Returned w"
  using assms by (auto simp: handleWebSocketMessage_def log_slice)

theorem C6_witness:
  "codec_Unmarshal [0x00, 0x01] = None \<and>
   handleWebSocketMessage remote_ok session0 0 (Uint8Array [0x00, 0x01]) = Returned session0"
proof -
  have h: "rdpConn (heap session0 0) = None" "tlsConn (heap session0 0) = None"
    "asn1_Unmarshal remote_ok [0x00, 0x01] = None"
    "\<not> (length [0x00, 0x01 :: byte] > 0 \<and> [0x00, 0x01 :: byte] ! 0 = 0x03)"
    by (simp_all add: session0_eq remote_ok_def Unmarshal_junk)
  from C6_dropped [OF h] show ?thesis by (simp add: Unmarshal_junk)
qed

text \<open>
  C6, as stated, fails: the two bytes 0x00 0x01 do not decode and do not start with
  0x03, and after the handler has run on \<open>session0\<close> the registry still maps
  \<^verbatim>\<open>proxy_0\<close> to the session and its scope is not cancelled.
\<close>

theorem C6_cex:
  "codec_Unmarshal [0x00, 0x01] = None \<and> [0x00, 0x01 :: byte] ! 0 \<noteq> 0x03 \<and>
   map_of (activeConnections (proxy (world_of (handleWebSocketMessage remote_ok session0 0 (Uint8Array [0x00, 0x01]))))) ''proxy_0'' = Some 0 \<and>
   \<not> ctx_done (heap (world_of (handleWebSocketMessage remote_ok session0 0 (Uint8Array [0x00, 0x01]))) 0)"
  by (simp add: Unmarshal_junk handleWebSocketMessage_def slice_to_def min_go_def remote_ok_def
      session0_eq)

subsection \<open>Proxy ids (C9)\<close>

text \<open>
  C9. Two calls of \<^verbatim>\<open>createProxy\<close> with no boundary attached in between return the same
  proxy id, whatever the store and the arguments: the id is made of the number of
  active connections, which \<^verbatim>\<open>createProxy\<close> does not change. From the empty store both
  ids are \<^verbatim>\<open>proxy_0\<close>, and the second call overwrites the destination \<^verbatim>\<open>a:1\<close> of the
  first with \<^verbatim>\<open>b:2\<close>.
\<close>

theorem C9_same_proxy_id:
  "fst (snd (createProxy (fst (createProxy w args1)) args2)) = fst (snd (createProxy w args1)) \<and>
   fst (snd (createProxy world0 [JsString ''a'', JsString ''1''])) = ''proxy_0'' \<and>
   fst (snd (createProxy (fst (createProxy world0 [JsString ''a'', JsString ''1'']))
      [JsString ''b'', JsString ''2''])) = ''proxy_0'' \<and>
   destinations (proxy (fst (createProxy (fst (createProxy world0 [JsString ''a'', JsString ''1'']))
      [JsString ''b'', JsString ''2'']))) = Some [(''proxy_0'', ''b:2'')]"
  by (simp add: createProxy_def Let_def world0_def NewRDCleanPathProxy_def Sprintf_d_0)

subsection \<open>Forwarding after negotiation (C10)\<close>

text \<open>
  C10. When the TLS handle of a session is installed, a byte sequence from the boundary
  makes exactly one event, a write of these bytes on the TLS connection, whether or not
  the raw handle is installed too; and when either handle is installed the handler
  is \<^verbatim>\<open>forwardToRDP\<close> whatever the decoder is: the bytes are not decoded.
\<close>

theorem C10_tls: "(tlsConn (heap w c) = Some t \<longrightarrow> handleWebSocketMessage d w c (Uint8Array bs) = Returned (emit (TlsWrite t bs) w))
  \<and> (rdpConn (heap w c) \<noteq> None \<or> tlsConn (heap w c) \<noteq> None \<longrightarrow> handleWebSocketMessage d w c (Uint8Array bs) = Returned (forwardToRDP w c bs))"
  by (auto simp: handleWebSocketMessage_def forwardToRDP_def)

theorem C10_witness:
  "rdpConn (heap established_tls 0) = Some 7 \<and> tlsConn (heap established_tls 0) = Some 7 \<and>
   handleWebSocketMessage remote_ok established_tls 0 (Uint8Array [0x16, 0x03, 0x01]) =
     Returned (emit (TlsWrite 7 [0x16, 0x03, 0x01]) established_tls) \<and>
   remote_writes (new_events established_tls
      (world_of (handleWebSocketMessage remote_ok established_tls 0 (Uint8Array [0x16, 0x03, 0x01])))) =
     [[0x16, 0x03, 0x01]]"
proof -
  have h: "tlsConn (heap established_tls 0) = Some 7" "rdpConn (heap established_tls 0) = Some 7"
    by (simp_all add: established_tls_def store_simps)
  from C10_tls [of established_tls 0 7 remote_ok "[0x16, 0x03, 0x01]"] h
  have "handleWebSocketMessage remote_ok established_tls 0 (Uint8Array [0x16, 0x03, 0x01]) =
     Returned (emit (TlsWrite 7 [0x16, 0x03, 0x01]) established_tls)" by blast
  with h show ?thesis by (simp add: new_events_def store_simps)
qed

section \<open>Properties of the codec\<close>

subsection \<open>Auxiliary facts\<close>









lemma encode_length_nonempty [simp]: "encode_length n \<noteq> []"
  by (simp add: encode_length_def)

























lemma starts_later_Nil [simp]: "starts_later k []"
  by (simp add: starts_later_def)



lemma hd_tlv [simp]: "hd (tlv t body) = t"
  by (simp add: tlv_def)

































subsection \<open>Round trip (C7)\<close>



subsection \<open>Decoding is total (C8)\<close>



end
